theory Spec2Isabelle
  imports Main "HOL-Library.Sublist"
begin

section \<open>Text, as the checker sees it\<close>

text \<open>
  A Python \<open>str\<close> is modelled as a \<open>string\<close>: a list of characters whose code points are
  below 256. Every pattern and every literal of \<open>Boilerplate_checker.py\<close> is ASCII; the
  line boundaries U+2028 and U+2029 of \<open>str.splitlines\<close> lie outside this range and are
  the only part of the library's behaviour that the model does not show.
\<close>

abbreviation LF :: char where "LF \<equiv> CHR 0x0A"
abbreviation CR :: char where "CR \<equiv> CHR 0x0D"

text \<open>
  \<open>str(n)\<close> for a non-negative integer: its decimal numeral. \<open>digit_char\<close> is only
  applied to numbers below ten.
\<close>

definition digit_char :: "nat \<Rightarrow> char" where
  "digit_char d = ''0123456789'' ! d"

function str_nat :: "nat \<Rightarrow> string" where
  "str_nat n = (if n < 10 then [digit_char n] else str_nat (n div 10) @ [digit_char (n mod 10)])"
  by pat_completeness auto
termination
  by (relation "measure (\<lambda>n. n)") auto

declare str_nat.simps [simp del]

text \<open>\<open>s.split(sep)\<close> for a one-character separator: never empty, pieces hold no separator.\<close>

fun split_char :: "char \<Rightarrow> string \<Rightarrow> string list" where
  "split_char sep [] = [[]]"
| "split_char sep (c # cs) =
     (if c = sep then [] # split_char sep cs
      else (case split_char sep cs of
              [] \<Rightarrow> [[c]]
            | l # ls \<Rightarrow> (c # l) # ls))"

text \<open>
  \<open>str.splitlines()\<close>: a line ends at \<open>\n\<close>, \<open>\r\<close>, \<open>\r\n\<close> (one boundary), \<open>\v\<close>, \<open>\f\<close>,
  \<open>\x1c\<close>, \<open>\x1d\<close>, \<open>\x1e\<close> or \<open>\x85\<close>; the boundaries are dropped and a final boundary opens
  no further line. The accumulator holds the current line, reversed.
\<close>

definition is_linebreak :: "char \<Rightarrow> bool" where
  "is_linebreak c \<longleftrightarrow>
     c = LF \<or> c = CR \<or> c = CHR 0x0B \<or> c = CHR 0x0C \<or> c = CHR 0x1C \<or> c = CHR 0x1D
     \<or> c = CHR 0x1E \<or> c = CHR 0x85"

fun splitlines_acc :: "string \<Rightarrow> string \<Rightarrow> string list" where
  "splitlines_acc acc [] = (if acc = [] then [] else [rev acc])"
| "splitlines_acc acc [c] =
     (if is_linebreak c then [rev acc] else [rev (c # acc)])"
| "splitlines_acc acc (c # d # cs) =
     (if c = CR \<and> d = LF then rev acc # splitlines_acc [] cs
      else if is_linebreak c then rev acc # splitlines_acc [] (d # cs)
      else splitlines_acc (c # acc) (d # cs))"

definition splitlines :: "string \<Rightarrow> string list" where
  "splitlines s = splitlines_acc [] s"

text \<open>\<open>str.lower()\<close> on code points below 256: A-Z and the capital letters of Latin-1.\<close>

definition lower_char :: "char \<Rightarrow> char" where
  "lower_char c =
     (let n = (of_char c :: nat) in
      if (65 \<le> n \<and> n \<le> 90) \<or> (192 \<le> n \<and> n \<le> 222 \<and> n \<noteq> 215)
      then char_of (n + 32) else c)"

definition lower :: "string \<Rightarrow> string" where
  "lower s = map lower_char s"

definition endswith :: "string \<Rightarrow> string \<Rightarrow> bool" where
  "endswith s suf = prefix (rev suf) (rev s)"

section \<open>File names\<close>

text \<open>\<open>os.path.basename\<close> (POSIX): the text after the last slash.\<close>

definition basename :: "string \<Rightarrow> string" where
  "basename p = rev (takeWhile (\<lambda>c. c \<noteq> CHR ''/'') (rev p))"

text \<open>
  \<open>os.path.splitext(p)[1]\<close> (POSIX): the last dot of the path counts when it lies in the
  last component and some character of that component before it is not a dot; the
  extension then runs from that dot to the end, and is empty otherwise.
\<close>

definition splitext_ext :: "string \<Rightarrow> string" where
  "splitext_ext p =
     (let b = basename p;
          e = rev (takeWhile (\<lambda>c. c \<noteq> CHR ''.'') (rev b));
          root = take (length b - length e - 1) b
      in if CHR ''.'' \<in> set b \<and> list_ex (\<lambda>c. c \<noteq> CHR ''.'') root
         then CHR ''.'' # e else [])"

definition get_file_extension :: "string \<Rightarrow> string" where
  "get_file_extension filename = lower (last (split_char (CHR ''.'') (splitext_ext filename)))"

section \<open>The compiled patterns\<close>

subsection \<open>year: \<open>YEAR\<close>\<close>

text \<open>\<open>regexs["year"].search(line)\<close>: the text \<open>YEAR\<close> starts at some position of the line.\<close>

fun year_search :: "string \<Rightarrow> bool" where
  "year_search [] = False"
| "year_search (c # cs) = (prefix ''YEAR'' (c # cs) \<or> year_search cs)"

subsection \<open>date: \<open>(2014|2015|...|current year)\<close>\<close>

text \<open>
  \<open>get_current_year_regex\<close> joins \<open>str(year)\<close> for \<open>range(2014, current_year + 1)\<close> with
  \<open>|\<close> inside one group. The pattern is kept as its list of alternatives; an empty range
  gives the pattern \<open>()\<close>, which matches the empty text.
\<close>

definition get_current_year_regex :: "nat \<Rightarrow> string list" where
  "get_current_year_regex current_year = map str_nat [2014 ..< current_year + 1]"

text \<open>
  The match of the pattern at the start of \<open>s\<close>: the alternatives are tried from left to
  right and the first that fits is taken.
\<close>

definition date_match :: "nat \<Rightarrow> string \<Rightarrow> string option" where
  "date_match cy s =
     (let alts = get_current_year_regex cy
      in if alts = [] then Some [] else find (\<lambda>a. prefix a s) alts)"

text \<open>
  \<open>regexs["date"].sub("YEAR", line)\<close>: the line is scanned from the left; a match is
  replaced and the scan goes on behind it, anything else is copied. After an empty match
  the next character is copied, and an empty match at the end of the line is replaced too.
\<close>

fun date_sub :: "nat \<Rightarrow> string \<Rightarrow> string" where
  "date_sub cy [] = (case date_match cy [] of None \<Rightarrow> [] | Some m \<Rightarrow> ''YEAR'')"
| "date_sub cy (c # cs) =
     (case date_match cy (c # cs) of
        None \<Rightarrow> c # date_sub cy cs
      | Some m \<Rightarrow>
          if m = [] then ''YEAR'' @ c # date_sub cy cs
          else ''YEAR'' @ date_sub cy (drop (length m - 1) cs))"

text \<open>\<open>regexs["date"].search(line)\<close>: the pattern matches at some position of the line.\<close>

fun date_search :: "nat \<Rightarrow> string \<Rightarrow> bool" where
  "date_search cy [] = (date_match cy [] \<noteq> None)"
| "date_search cy (c # cs) = (date_match cy (c # cs) \<noteq> None \<or> date_search cy cs)"

subsection \<open>The preamble patterns, compiled with \<open>re.MULTILINE\<close>\<close>

text \<open>\<open>.*\n\<close>: everything up to and including the next newline; the rest is returned.\<close>

fun after_newline :: "string \<Rightarrow> string option" where
  "after_newline [] = None"
| "after_newline (c # cs) = (if c = LF then Some cs else after_newline cs)"

text \<open>One build-constraint line, \<open>//(go:build| \+build).*\n\<close>, at the start of \<open>s\<close>.\<close>

definition go_build_line :: "string \<Rightarrow> string option" where
  "go_build_line s =
     (if prefix ''//go:build'' s then after_newline (drop 10 s)
      else if prefix ''// +build'' s then after_newline (drop 9 s)
      else None)"

text \<open>
  \<open>(//(go:build| \+build).*\n)+\n\<close> at the start of \<open>s\<close>: one build line, then, greedily,
  the same again; where that fails, the closing newline.
\<close>

function go_build_constraints :: "string \<Rightarrow> string option" where
  "go_build_constraints s =
     (case go_build_line s of
        None \<Rightarrow> None
      | Some r \<Rightarrow>
          (case go_build_constraints r of
             Some rest \<Rightarrow> Some rest
           | None \<Rightarrow> (case r of [] \<Rightarrow> None | c # rest \<Rightarrow> if c = LF then Some rest else None)))"
  by pat_completeness auto
termination
proof (relation "measure length")
  show "wf (measure (length :: string \<Rightarrow> nat))"
    by simp
next
  fix s r :: string
  assume line: "go_build_line s = Some r"
  have shorter: "length b < length a" if "after_newline a = Some b" for a b
    using that by (induction a) (auto split: if_splits)
  from line have "length r < length s"
    by (auto simp: go_build_line_def split: if_splits dest!: shorter)
  then show "(r, s) \<in> measure length"
    by simp
qed

declare go_build_constraints.simps [simp del]

text \<open>\<open>(#!.*\n)\n*\<close> at the start of \<open>s\<close>: the shebang line and every newline behind it.\<close>

definition shebang :: "string \<Rightarrow> string option" where
  "shebang s =
     (if prefix ''#!'' s
      then (case after_newline (drop 2 s) of
              None \<Rightarrow> None
            | Some r \<Rightarrow> Some (dropWhile (\<lambda>c. c = LF) r))
      else None)"

text \<open>
  \<open>pattern.subn("", data, 1)\<close> for a pattern that opens with \<open>^\<close> under \<open>re.MULTILINE\<close>:
  the scan tries the pattern at the start of the text and behind each newline, removes
  the first match it finds and copies everything else. \<open>bol\<close> says whether the current
  position starts a line; \<open>m\<close> is the pattern behind the \<open>^\<close>.
\<close>

fun subn_first :: "(string \<Rightarrow> string option) \<Rightarrow> bool \<Rightarrow> string \<Rightarrow> string" where
  "subn_first m bol [] = []"
| "subn_first m bol (c # cs) =
     (case (if bol then m (c # cs) else None) of
        Some rest \<Rightarrow> rest
      | None \<Rightarrow> c # subn_first m (c = LF) cs)"

subsection \<open>generated: \<open>^[/*#]+ +.* DO NOT EDIT\.$\<close> with \<open>re.MULTILINE\<close>\<close>

text \<open>
  Neither the character class, the blank nor the dot matches a newline, so a match is a
  whole piece of \<open>data.split("\n")\<close>: \<open>^\<close> holds at its start and \<open>$\<close> at its end.
  Within the piece the class takes the longest run it can (a blank must follow), one
  blank is given to \<open> +\<close>, and the piece must end with the closing text.
\<close>

definition is_comment_char :: "char \<Rightarrow> bool" where
  "is_comment_char c \<longleftrightarrow> c = CHR ''/'' \<or> c = CHR ''*'' \<or> c = CHR ''#''"

definition generated_line :: "string \<Rightarrow> bool" where
  "generated_line l =
     (takeWhile is_comment_char l \<noteq> [] \<and>
      (case dropWhile is_comment_char l of
         [] \<Rightarrow> False
       | c # r \<Rightarrow> c = CHR '' '' \<and> endswith r '' DO NOT EDIT.''))"

definition is_generated_file :: "string \<Rightarrow> bool" where
  "is_generated_file data = list_ex generated_line (split_char LF data)"

section \<open>The check of one file\<close>

text \<open>
  What the checker reads from outside is gathered in one record: the \<open>--verbose\<close> flag,
  the year of \<open>datetime.datetime.now()\<close>, the outcome of opening and reading a file by
  name, \<open>difflib.unified_diff\<close> (called with \<open>lineterm=""\<close>), whose lines are not
  looked into, the positional arguments \<open>args.filenames\<close>, and what
  \<open>os.walk(args.rootdir)\<close> yields: for each directory its path and the names of its files.
\<close>

datatype stream = Stdout | Stderr

datatype exc = OSError string | OtherException string

datatype read_result = Content string | Raises exc

record env =
  verbose :: bool
  current_year :: nat
  open_read :: "string \<Rightarrow> read_result"
  unified_diff :: "string list \<Rightarrow> string list \<Rightarrow> string \<Rightarrow> string \<Rightarrow> string list"
  filenames :: "string list"
  walk :: "(string \<times> string list) list"

type_synonym printed = "(stream \<times> string) list"

text \<open>\<open>verbose_out = sys.stderr if args.verbose else None\<close>\<close>

definition verbose_out :: "env \<Rightarrow> stream option" where
  "verbose_out e = (if verbose e then Some Stderr else None)"

text \<open>\<open>print(msg, file=f)\<close>: Python writes to \<open>sys.stdout\<close> when \<open>file\<close> is \<open>None\<close>.\<close>

definition print :: "string \<Rightarrow> stream option \<Rightarrow> printed" where
  "print msg file = [(case file of None \<Rightarrow> Stdout | Some f \<Rightarrow> f, msg)]"

text \<open>
  \<open>file_passes_check\<close> returns what it printed and either the exception that left it or
  its verdict. Only \<open>OSError\<close> is caught around the read; \<open>OtherException\<close> stands for an
  exception of any other class, with its text.
\<close>

definition file_passes_check ::
  "env \<Rightarrow> string \<Rightarrow> (string \<rightharpoonup> string list) \<Rightarrow> printed \<times> (exc + bool)" where
  "file_passes_check e filename refs =
     (case open_read e filename of
        Raises (OSError msg) \<Rightarrow>
          (print (''Unable to open '' @ filename @ '': '' @ msg) (verbose_out e), Inr False)
      | Raises (OtherException msg) \<Rightarrow> ([], Inl (OtherException msg))
      | Content text \<Rightarrow>
          (let generated = is_generated_file text;
               extension = get_file_extension filename;
               extension = (if generated \<and> extension = ''go'' then ''generatego'' else extension);
               ref = (case refs extension of
                        Some r \<Rightarrow> r
                      | None \<Rightarrow> (case refs (basename filename) of Some r \<Rightarrow> r | None \<Rightarrow> []));
               data = (if extension = ''go'' \<or> extension = ''generatego''
                       then subn_first go_build_constraints True text
                       else if extension = ''sh'' \<or> extension = ''py''
                       then subn_first shebang True text
                       else text);
               data = splitlines data
           in if length ref > length data
              then (print (''File '' @ filename @ '' smaller than reference ('' @
                           str_nat (length data) @ '' < '' @ str_nat (length ref) @ '')'')
                      (verbose_out e), Inr False)
              else
                (let data = take (length ref) data
                 in if list_ex year_search data
                    then (print (if generated
                                 then ''File '' @ filename @
                                      '' has the YEAR field, but it should not be in generated file''
                                 else ''File '' @ filename @
                                      '' has the YEAR field, but is missing the year of date'')
                            (verbose_out e), Inr False)
                    else
                      (let data = (if \<not> generated then map (date_sub (current_year e)) data
                                   else data)
                       in if ref \<noteq> data
                          then (print (''Header in '' @ filename @
                                       '' does not match reference. Showing diff:'') (verbose_out e) @
                                (if verbose e
                                 then concat (map (\<lambda>line. print line (verbose_out e))
                                                (unified_diff e ref data ''reference'' filename))
                                 else []),
                                Inr False)
                          else ([], Inr True)))))"

section \<open>The batch\<close>

text \<open>\<open>os.path.join(a, b)\<close> (POSIX) for two parts.\<close>

definition path_join :: "string \<Rightarrow> string \<Rightarrow> string" where
  "path_join a b =
     (if prefix ''/'' b then b
      else if a = [] \<or> endswith a ''/'' then a @ b
      else a @ ''/'' @ b)"

text \<open>
  \<open>normalize_files\<close> reads the global \<open>skipped_names\<close> for the first path of its loop.
  The module binds no such name (it imports only the standard library and assigns
  \<open>parser\<close>, \<open>args\<close> and \<open>verbose_out\<close>), so Python raises \<open>NameError\<close> there and the rest
  of the loop body, the join with \<open>args.rootdir\<close>, never runs. An empty list is returned
  as it is.
\<close>

definition NameError_skipped_names :: exc where
  "NameError_skipped_names =
     OtherException (''name '' @ [CHR 0x27] @ ''skipped_names'' @ [CHR 0x27] @ '' is not defined'')"

fun normalize_files :: "string list \<Rightarrow> exc + string list" where
  "normalize_files [] = Inr []"
| "normalize_files (pathname # files) = Inl NameError_skipped_names"

text \<open>
  \<open>get_files_to_check(extensions)\<close>, called with the keys of the templates: the files
  named on the command line or, when there are none, the files of the walk whose
  extension or name is a key.
\<close>

definition get_files_to_check :: "env \<Rightarrow> (string \<rightharpoonup> string list) \<Rightarrow> exc + string list" where
  "get_files_to_check e refs =
     (let files =
        (if filenames e \<noteq> [] then filenames e
         else concat (map (\<lambda>(root, names).
                map (path_join root)
                  (filter (\<lambda>name. refs (get_file_extension name) \<noteq> None \<or> refs name \<noteq> None)
                     names))
              (walk e)))
      in normalize_files files)"

text \<open>
  The loop of \<open>main\<close> over \<open>files_to_check\<close>, and its \<open>return 0\<close>. An exception that
  leaves \<open>file_passes_check\<close> leaves the loop as well.
\<close>

fun main_loop ::
  "env \<Rightarrow> (string \<rightharpoonup> string list) \<Rightarrow> string list \<Rightarrow> printed \<times> (exc + nat)" where
  "main_loop e refs [] = ([], Inr 0)"
| "main_loop e refs (filename # files) =
     (case file_passes_check e filename refs of
        (out, Inl x) \<Rightarrow> (out, Inl x)
      | (out, Inr passed) \<Rightarrow>
          (let failed = (if \<not> passed then print (''Failed: '' @ filename) None else []);
               (out', r) = main_loop e refs files
           in (out @ failed @ out', r)))"

text \<open>
  \<open>main\<close>: the templates \<open>refs\<close> are what \<open>get_boilerplate_refs()\<close> has read; the files
  come from \<open>get_files_to_check\<close>, and an exception raised there leaves \<open>main\<close> before
  the loop.
\<close>

definition main :: "env \<Rightarrow> (string \<rightharpoonup> string list) \<Rightarrow> printed \<times> (exc + nat)" where
  "main e refs =
     (case get_files_to_check e refs of
        Inl x \<Rightarrow> ([], Inl x)
      | Inr files_to_check \<Rightarrow> main_loop e refs files_to_check)"

section \<open>Terms of the statements\<close>

text \<open>
  The stages of \<open>file_passes_check\<close>, named: the key under which the template is looked
  up, the template, the text behind the preamble, its lines, and the lines that are
  compared (the first \<open>len(ref)\<close> of them).
\<close>

definition resolved_key :: "string \<Rightarrow> string \<Rightarrow> string" where
  "resolved_key filename text =
     (if is_generated_file text \<and> get_file_extension filename = ''go'' then ''generatego''
      else get_file_extension filename)"

definition template_for :: "(string \<rightharpoonup> string list) \<Rightarrow> string \<Rightarrow> string \<Rightarrow> string list" where
  "template_for refs filename text =
     (case refs (resolved_key filename text) of
        Some r \<Rightarrow> r
      | None \<Rightarrow> (case refs (basename filename) of Some r \<Rightarrow> r | None \<Rightarrow> []))"

definition strip_preamble :: "string \<Rightarrow> string \<Rightarrow> string" where
  "strip_preamble key text =
     (if key = ''go'' \<or> key = ''generatego'' then subn_first go_build_constraints True text
      else if key = ''sh'' \<or> key = ''py'' then subn_first shebang True text
      else text)"

definition normalized_lines :: "string \<Rightarrow> string \<Rightarrow> string list" where
  "normalized_lines filename text =
     splitlines (strip_preamble (resolved_key filename text) text)"

definition header :: "(string \<rightharpoonup> string list) \<Rightarrow> string \<Rightarrow> string \<Rightarrow> string list" where
  "header refs filename text =
     take (length (template_for refs filename text)) (normalized_lines filename text)"

text \<open>A line of a template with each \<open>YEAR\<close> placeholder, from the left, filled in.\<close>

fun replace_YEAR :: "string \<Rightarrow> string \<Rightarrow> string" where
  "replace_YEAR ys [] = []"
| "replace_YEAR ys (c # cs) =
     (if prefix ''YEAR'' (c # cs) then ys @ replace_YEAR ys (drop 3 cs)
      else c # replace_YEAR ys cs)"

definition is_digit :: "char \<Rightarrow> bool" where
  "is_digit c \<longleftrightarrow> c \<in> set ''0123456789''"

text \<open>A decimal digit stands directly before a \<open>YEAR\<close> placeholder of the line.\<close>

fun digit_before_YEAR :: "string \<Rightarrow> bool" where
  "digit_before_YEAR [] = False"
| "digit_before_YEAR (c # cs) = ((is_digit c \<and> prefix ''YEAR'' cs) \<or> digit_before_YEAR cs)"

section \<open>Example files and templates\<close>

definition ex_refs :: "string \<rightharpoonup> string list" where
  "ex_refs =
     [''go'' \<mapsto> [''// Copyright YEAR The Authors.'',
                  ''// Licensed under the Apache License, Version 2.0''],
      ''generatego'' \<mapsto> [''// Licensed under the Apache License, Version 2.0''],
      ''py'' \<mapsto> [''# Copyright YEAR The Authors.''],
      ''sh'' \<mapsto> [''# Copyright 2014-YEAR The Authors.''],
      ''Makefile'' \<mapsto> [''# Licensed under the Apache License, Version 2.0''],
      ''c'' \<mapsto> [''/* Copyright YEAR The Authors. */'',
                 ''/* Licensed under the Apache License, Version 2.0 */'']]"

definition txt_notes :: string where
  "txt_notes = ''no header here\<newline>''"

definition txt_main_go :: string where
  "txt_main_go = ''//go:build linux\<newline>\<newline>// Copyright 2023 The Authors.\<newline>// Licensed under the Apache License, Version 2.0\<newline>\<newline>package main\<newline>''"

definition txt_late_go :: string where
  "txt_late_go = ''// Copyright 2023 The Authors.\<newline>//go:build linux\<newline>\<newline>// Licensed under the Apache License, Version 2.0\<newline>package main\<newline>''"

definition txt_verbatim_go :: string where
  "txt_verbatim_go = ''// Copyright YEAR The Authors.\<newline>// Licensed under the Apache License, Version 2.0\<newline>''"

definition txt_gen_go :: string where
  "txt_gen_go = ''// +build ignore DO NOT EDIT.\<newline>\<newline>// Licensed under the Apache License, Version 2.0\<newline>package gen\<newline>''"

definition txt_zz_go :: string where
  "txt_zz_go = ''// Copyright YEAR The Authors. DO NOT EDIT.\<newline>package gen\<newline>''"

definition txt_tmpl_py :: string where
  "txt_tmpl_py = ''# Copyright YEAR The Authors.\<newline>''"

definition txt_run_sh :: string where
  "txt_run_sh = ''#!/bin/sh\<newline>\<newline># Copyright 2014-2023 The Authors.\<newline>echo hi\<newline>''"

definition txt_Makefile :: string where
  "txt_Makefile = ''# Licensed under the Apache License, Version 2.0\<newline>\<newline>all:\<newline>''"

definition txt_short_go :: string where
  "txt_short_go = ''// Copyright YEAR The Authors.\<newline>''"

definition txt_short_c :: string where
  "txt_short_c = ''/* Copyright YEAR The Authors. DO NOT EDIT.\<newline>''"

text \<open>The text of the \<open>FileNotFoundError\<close> that \<open>open\<close> raises for a missing file.\<close>

definition no_such_file :: "string \<Rightarrow> string" where
  "no_such_file f = ''[Errno 2] No such file or directory: '' @ [CHR 0x27] @ f @ [CHR 0x27]"

definition ex_files :: "string \<Rightarrow> read_result" where
  "ex_files f =
     (if f = ''notes.xyz'' then Content txt_notes
      else if f = ''cmd/main.go'' then Content txt_main_go
      else if f = ''late.go'' then Content txt_late_go
      else if f = ''verbatim.go'' then Content txt_verbatim_go
      else if f = ''gen.go'' then Content txt_gen_go
      else if f = ''zz_generated.go'' then Content txt_zz_go
      else if f = ''tmpl.py'' then Content txt_tmpl_py
      else if f = ''empty.py'' then Content []
      else if f = ''run.sh'' then Content txt_run_sh
      else if f = ''Makefile'' then Content txt_Makefile
      else if f = ''short.go'' then Content txt_short_go
      else if f = ''short.c'' then Content txt_short_c
      else if f = ''blob.go'' then Raises (OtherException ''utf-8 codec cannot decode byte 0xff'')
      else Raises (OSError (no_such_file f)))"

definition ex_env :: "bool \<Rightarrow> env" where
  "ex_env v = \<lparr>verbose = v, current_year = 2023, open_read = ex_files,
                unified_diff = (\<lambda>a b fromfile tofile. []), filenames = [], walk = []\<rparr>"


section \<open>Evaluation of the examples\<close>

lemma years_2023:
  "get_current_year_regex 2023 =
     [''2014'', ''2015'', ''2016'', ''2017'', ''2018'', ''2019'', ''2020'', ''2021'', ''2022'', ''2023'']"
  by (simp add: get_current_year_regex_def str_nat.simps digit_char_def upt_rec)

lemma str_nat_examples:
  "str_nat 0 = ''0''" "str_nat 1 = ''1''" "str_nat 2019 = ''2019''" "str_nat 2023 = ''2023''"
  "str_nat 2024 = ''2024''" "str_nat (Suc 0) = ''1''" "str_nat 2 = ''2''"
  "str_nat (Suc (Suc 0)) = ''2''"
  by (simp_all add: str_nat.simps digit_char_def)

lemma ext_examples:
  "get_file_extension ''notes.xyz'' = ''xyz''"
  "get_file_extension ''cmd/main.go'' = ''go''"
  "get_file_extension ''late.go'' = ''go''"
  "get_file_extension ''verbatim.go'' = ''go''"
  "get_file_extension ''gen.go'' = ''go''"
  "get_file_extension ''zz_generated.go'' = ''go''"
  "get_file_extension ''tmpl.py'' = ''py''"
  "get_file_extension ''empty.py'' = ''py''"
  "get_file_extension ''run.sh'' = ''sh''"
  "get_file_extension ''Makefile'' = []"
  "get_file_extension ''short.go'' = ''go''"
  "get_file_extension ''short.c'' = ''c''"
  by code_simp+

lemma basename_examples:
  "basename ''notes.xyz'' = ''notes.xyz''"
  "basename ''Makefile'' = ''Makefile''"
  by (simp_all add: basename_def)

lemma ex_env_fields:
  "verbose (ex_env v) = v"
  "current_year (ex_env v) = 2023"
  "verbose_out (ex_env v) = (if v then Some Stderr else None)"
  by (simp_all add: ex_env_def verbose_out_def)

lemma open_examples:
  "open_read (ex_env v) ''notes.xyz'' = Content txt_notes"
  "open_read (ex_env v) ''cmd/main.go'' = Content txt_main_go"
  "open_read (ex_env v) ''late.go'' = Content txt_late_go"
  "open_read (ex_env v) ''verbatim.go'' = Content txt_verbatim_go"
  "open_read (ex_env v) ''gen.go'' = Content txt_gen_go"
  "open_read (ex_env v) ''zz_generated.go'' = Content txt_zz_go"
  "open_read (ex_env v) ''tmpl.py'' = Content txt_tmpl_py"
  "open_read (ex_env v) ''empty.py'' = Content []"
  "open_read (ex_env v) ''run.sh'' = Content txt_run_sh"
  "open_read (ex_env v) ''Makefile'' = Content txt_Makefile"
  "open_read (ex_env v) ''blob.go'' = Raises (OtherException ''utf-8 codec cannot decode byte 0xff'')"
  "open_read (ex_env v) ''gone.go'' = Raises (OSError (no_such_file ''gone.go''))"
  "open_read (ex_env v) ''short.go'' = Content txt_short_go"
  "open_read (ex_env v) ''short.c'' = Content txt_short_c"
  by (simp_all add: ex_env_def ex_files_def)

lemma generated_examples:
  "\<not> is_generated_file txt_notes"
  "\<not> is_generated_file txt_main_go"
  "\<not> is_generated_file txt_late_go"
  "\<not> is_generated_file txt_verbatim_go"
  "is_generated_file txt_gen_go"
  "is_generated_file txt_zz_go"
  "\<not> is_generated_file txt_tmpl_py"
  "\<not> is_generated_file []"
  "\<not> is_generated_file txt_run_sh"
  "\<not> is_generated_file txt_Makefile"
  "\<not> is_generated_file txt_short_go"
  "is_generated_file txt_short_c"
  by (simp_all add: is_generated_file_def generated_line_def is_comment_char_def endswith_def
      txt_notes_def txt_main_go_def txt_late_go_def txt_verbatim_go_def txt_gen_go_def
      txt_zz_go_def txt_tmpl_py_def txt_run_sh_def txt_Makefile_def txt_short_go_def
      txt_short_c_def)

lemma key_examples:
  "resolved_key ''notes.xyz'' txt_notes = ''xyz''"
  "resolved_key ''cmd/main.go'' txt_main_go = ''go''"
  "resolved_key ''late.go'' txt_late_go = ''go''"
  "resolved_key ''verbatim.go'' txt_verbatim_go = ''go''"
  "resolved_key ''gen.go'' txt_gen_go = ''generatego''"
  "resolved_key ''zz_generated.go'' txt_zz_go = ''generatego''"
  "resolved_key ''tmpl.py'' txt_tmpl_py = ''py''"
  "resolved_key ''empty.py'' [] = ''py''"
  "resolved_key ''run.sh'' txt_run_sh = ''sh''"
  "resolved_key ''Makefile'' txt_Makefile = []"
  "resolved_key ''short.go'' txt_short_go = ''go''"
  "resolved_key ''short.c'' txt_short_c = ''c''"
  by (simp_all add: resolved_key_def ext_examples generated_examples)

lemma template_examples:
  "template_for ex_refs ''notes.xyz'' txt_notes = []"
  "template_for ex_refs ''cmd/main.go'' txt_main_go =
     [''// Copyright YEAR The Authors.'', ''// Licensed under the Apache License, Version 2.0'']"
  "template_for ex_refs ''late.go'' txt_late_go =
     [''// Copyright YEAR The Authors.'', ''// Licensed under the Apache License, Version 2.0'']"
  "template_for ex_refs ''verbatim.go'' txt_verbatim_go =
     [''// Copyright YEAR The Authors.'', ''// Licensed under the Apache License, Version 2.0'']"
  "template_for ex_refs ''gen.go'' txt_gen_go =
     [''// Licensed under the Apache License, Version 2.0'']"
  "template_for ex_refs ''zz_generated.go'' txt_zz_go =
     [''// Licensed under the Apache License, Version 2.0'']"
  "template_for ex_refs ''tmpl.py'' txt_tmpl_py = [''# Copyright YEAR The Authors.'']"
  "template_for ex_refs ''empty.py'' [] = [''# Copyright YEAR The Authors.'']"
  "template_for ex_refs ''run.sh'' txt_run_sh = [''# Copyright 2014-YEAR The Authors.'']"
  "template_for ex_refs ''Makefile'' txt_Makefile =
     [''# Licensed under the Apache License, Version 2.0'']"
  "template_for ex_refs ''short.go'' txt_short_go =
     [''// Copyright YEAR The Authors.'', ''// Licensed under the Apache License, Version 2.0'']"
  "template_for ex_refs ''short.c'' txt_short_c =
     [''/* Copyright YEAR The Authors. */'',
      ''/* Licensed under the Apache License, Version 2.0 */'']"
  by (simp_all add: template_for_def key_examples basename_examples ex_refs_def)

lemma lines_examples:
  "normalized_lines ''notes.xyz'' txt_notes = [''no header here'']"
  "normalized_lines ''cmd/main.go'' txt_main_go =
     [''// Copyright 2023 The Authors.'', ''// Licensed under the Apache License, Version 2.0'',
      [], ''package main'']"
  "normalized_lines ''late.go'' txt_late_go =
     [''// Copyright 2023 The Authors.'', ''// Licensed under the Apache License, Version 2.0'',
      ''package main'']"
  "normalized_lines ''verbatim.go'' txt_verbatim_go =
     [''// Copyright YEAR The Authors.'', ''// Licensed under the Apache License, Version 2.0'']"
  "normalized_lines ''gen.go'' txt_gen_go =
     [''// Licensed under the Apache License, Version 2.0'', ''package gen'']"
  "normalized_lines ''zz_generated.go'' txt_zz_go =
     [''// Copyright YEAR The Authors. DO NOT EDIT.'', ''package gen'']"
  "normalized_lines ''tmpl.py'' txt_tmpl_py = [''# Copyright YEAR The Authors.'']"
  "normalized_lines ''empty.py'' [] = []"
  "normalized_lines ''run.sh'' txt_run_sh = [''# Copyright 2014-2023 The Authors.'', ''echo hi'']"
  "normalized_lines ''Makefile'' txt_Makefile =
     [''# Licensed under the Apache License, Version 2.0'', [], ''all:'']"
  "normalized_lines ''short.go'' txt_short_go = [''// Copyright YEAR The Authors.'']"
  "normalized_lines ''short.c'' txt_short_c = [''/* Copyright YEAR The Authors. DO NOT EDIT.'']"
  unfolding normalized_lines_def key_examples
  by (simp_all add: strip_preamble_def splitlines_def
      is_linebreak_def go_build_constraints.simps go_build_line_def shebang_def
      txt_notes_def txt_main_go_def txt_late_go_def txt_verbatim_go_def txt_gen_go_def
      txt_zz_go_def txt_tmpl_py_def txt_run_sh_def txt_Makefile_def txt_short_go_def
      txt_short_c_def)

lemma header_examples:
  "header ex_refs ''notes.xyz'' txt_notes = []"
  "header ex_refs ''cmd/main.go'' txt_main_go =
     [''// Copyright 2023 The Authors.'', ''// Licensed under the Apache License, Version 2.0'']"
  "header ex_refs ''late.go'' txt_late_go =
     [''// Copyright 2023 The Authors.'', ''// Licensed under the Apache License, Version 2.0'']"
  "header ex_refs ''verbatim.go'' txt_verbatim_go =
     [''// Copyright YEAR The Authors.'', ''// Licensed under the Apache License, Version 2.0'']"
  "header ex_refs ''gen.go'' txt_gen_go = [''// Licensed under the Apache License, Version 2.0'']"
  "header ex_refs ''zz_generated.go'' txt_zz_go = [''// Copyright YEAR The Authors. DO NOT EDIT.'']"
  "header ex_refs ''tmpl.py'' txt_tmpl_py = [''# Copyright YEAR The Authors.'']"
  "header ex_refs ''empty.py'' [] = []"
  "header ex_refs ''run.sh'' txt_run_sh = [''# Copyright 2014-2023 The Authors.'']"
  "header ex_refs ''Makefile'' txt_Makefile = [''# Licensed under the Apache License, Version 2.0'']"
  "header ex_refs ''short.go'' txt_short_go = [''// Copyright YEAR The Authors.'']"
  "header ex_refs ''short.c'' txt_short_c = [''/* Copyright YEAR The Authors. DO NOT EDIT.'']"
  by (simp_all add: header_def template_examples lines_examples)

section \<open>The check, stage by stage\<close>

lemma file_passes_check_Content:
  assumes "open_read e filename = Content text"
  shows "file_passes_check e filename refs =
     (let generated = is_generated_file text;
          ref = template_for refs filename text;
          data = normalized_lines filename text
      in if length data < length ref
         then (print (''File '' @ filename @ '' smaller than reference ('' @
                      str_nat (length data) @ '' < '' @ str_nat (length ref) @ '')'')
                 (verbose_out e), Inr False)
         else if list_ex year_search (header refs filename text)
         then (print (if generated
                      then ''File '' @ filename @
                           '' has the YEAR field, but it should not be in generated file''
                      else ''File '' @ filename @
                           '' has the YEAR field, but is missing the year of date'')
                 (verbose_out e), Inr False)
         else if ref \<noteq> (if generated then header refs filename text
                         else map (date_sub (current_year e)) (header refs filename text))
         then (print (''Header in '' @ filename @
                      '' does not match reference. Showing diff:'') (verbose_out e) @
               (if verbose e
                then concat (map (\<lambda>line. print line (verbose_out e))
                       (unified_diff e ref
                          (if generated then header refs filename text
                           else map (date_sub (current_year e)) (header refs filename text))
                          ''reference'' filename))
                else []),
               Inr False)
         else ([], Inr True))"
  using assms
  by (simp add: file_passes_check_def Let_def header_def normalized_lines_def
      template_for_def strip_preamble_def resolved_key_def)

lemma main_loop_append:
  "main_loop e refs (pre @ rest) =
     (case main_loop e refs pre of
        (out, Inl x) \<Rightarrow> (out, Inl x)
      | (out, Inr n) \<Rightarrow> (out @ fst (main_loop e refs rest), snd (main_loop e refs rest)))"
  by (induction pre) (auto split: prod.splits sum.splits simp: Let_def)


section \<open>The year pattern and the placeholder\<close>

lemma str_nat_four:
  assumes "1000 \<le> n" "n < 10000"
  shows "str_nat n = [digit_char (n div 1000), digit_char (n div 100 mod 10),
                      digit_char (n div 10 mod 10), digit_char (n mod 10)]"
proof -
  have e1: "n div 10 div 10 = n div 100"
    using div_mult2_eq [of n 10 10] by simp
  have e2: "n div 100 div 10 = n div 1000"
    using div_mult2_eq [of n 100 10] by simp
  have a: "str_nat n = str_nat (n div 10) @ [digit_char (n mod 10)]"
    using assms by (subst str_nat.simps) simp
  have b: "str_nat (n div 10) = str_nat (n div 100) @ [digit_char (n div 10 mod 10)]"
    using assms by (subst str_nat.simps) (simp add: e1)
  have c: "str_nat (n div 100) = str_nat (n div 1000) @ [digit_char (n div 100 mod 10)]"
    using assms by (subst str_nat.simps) (simp add: e2)
  have d: "str_nat (n div 1000) = [digit_char (n div 1000)]"
    using assms by (subst str_nat.simps) simp
  show ?thesis by (simp add: a b c d)
qed

lemma is_digit_digit_char: "k < 10 \<Longrightarrow> is_digit (digit_char k)"
proof -
  assume "k < 10"
  then have "k \<in> {0, 1, 2, 3, 4, 5, 6, 7, 8, 9}" by auto
  then show ?thesis by (auto simp: is_digit_def digit_char_def)
qed

lemma str_nat_year:
  assumes "1000 \<le> n" "n < 10000"
  shows "length (str_nat n) = 4" and "\<forall>c\<in>set (str_nat n). is_digit c" and "str_nat n \<noteq> []"
  using assms by (simp_all add: str_nat_four is_digit_digit_char)

lemma year_alternatives:
  "set (get_current_year_regex cy) = {m. \<exists>y. 2014 \<le> y \<and> y \<le> cy \<and> m = str_nat y}"
  by (auto simp: get_current_year_regex_def)

lemma same_length_prefixes: "prefix a s \<Longrightarrow> prefix b s \<Longrightarrow> length a = length b \<Longrightarrow> a = b"
  by (auto simp: prefix_def)

lemma date_match_Some_iff:
  assumes "2014 \<le> cy" and "cy \<le> 9999"
  shows "(date_match cy s = Some m \<longleftrightarrow>
            prefix m s \<and> (\<exists>y. 2014 \<le> y \<and> y \<le> cy \<and> m = str_nat y))
         \<and> (date_match cy s = Some m \<longrightarrow> length m = 4)"
proof -
  let ?alts = "get_current_year_regex cy"
  have ne: "?alts \<noteq> []"
    using assms by (simp add: get_current_year_regex_def)
  then have dm: "date_match cy s = find (\<lambda>a. prefix a s) ?alts"
    by (simp add: date_match_def Let_def)
  have len: "length a = 4" if "a \<in> set ?alts" for a
    using that assms by (auto simp: year_alternatives str_nat_year)
  have fwd: "prefix m s \<and> m \<in> set ?alts" if "date_match cy s = Some m"
    using that unfolding dm by (auto simp: find_Some_iff)
  have bwd: "date_match cy s = Some m" if "prefix m s" "m \<in> set ?alts"
  proof -
    from that have "find (\<lambda>a. prefix a s) ?alts \<noteq> None"
      by (auto simp: find_None_iff)
    then obtain a where a: "find (\<lambda>a. prefix a s) ?alts = Some a"
      by auto
    then have "prefix a s" "a \<in> set ?alts"
      by (auto simp: find_Some_iff)
    with that have "a = m"
      by (auto intro: same_length_prefixes simp: len)
    with a show ?thesis by (simp add: dm)
  qed
  show ?thesis
    using fwd bwd len by (auto simp: year_alternatives)
qed

lemma date_match_digits:
  assumes "2014 \<le> cy" and "cy \<le> 9999" and "date_match cy s = Some m"
  shows "length m = 4 \<and> (\<forall>c\<in>set m. is_digit c)"
proof -
  from assms obtain y where y: "2014 \<le> y" "y \<le> cy" "m = str_nat y"
    using date_match_Some_iff [of cy s m] by auto
  with assms have "1000 \<le> y" "y < 10000"
    by simp_all
  with y show ?thesis
    using str_nat_year [of y] by simp
qed

lemma date_sub_unchanged: "\<not> date_search cy l \<Longrightarrow> date_sub cy l = l"
  by (induction l) auto

lemma date_search_drop: "\<not> date_search cy l \<Longrightarrow> 2014 \<le> cy \<Longrightarrow> \<not> date_search cy (drop n l)"
proof (induction l arbitrary: n)
  case Nil
  then show ?case by simp
next
  case (Cons c cs)
  then show ?case by (cases n) auto
qed

lemma digit_before_YEAR_drop: "\<not> digit_before_YEAR l \<Longrightarrow> \<not> digit_before_YEAR (drop n l)"
proof (induction l arbitrary: n)
  case Nil
  then show ?case by simp
next
  case (Cons c cs)
  then show ?case by (cases n) auto
qed

lemma year_search_digits_append:
  "\<forall>c\<in>set ds. is_digit c \<Longrightarrow> year_search (ds @ r) = year_search r"
  by (induction ds) (auto simp: is_digit_def)

lemma prefix_replace_nondigits:
  assumes "ys \<noteq> []" and "\<forall>c\<in>set ys. is_digit c"
  shows "\<forall>c\<in>set p. \<not> is_digit c \<Longrightarrow> prefix p (replace_YEAR ys cs) \<Longrightarrow> prefix p cs"
proof (induction p arbitrary: cs)
  case Nil
  then show ?case by simp
next
  case (Cons x p)
  show ?case
  proof (cases cs)
    case Nil
    with Cons.prems show ?thesis by simp
  next
    case (Cons z zs)
    show ?thesis
    proof (cases "prefix ''YEAR'' (z # zs)")
      case True
      with Cons.prems Cons assms show ?thesis
        by (cases ys) auto
    next
      case False
      with Cons.prems Cons Cons.IH [of zs] show ?thesis
        by auto
    qed
  qed
qed

lemma no_year_after_replace:
  assumes "ys \<noteq> []" and "\<forall>c\<in>set ys. is_digit c"
  shows "\<not> year_search (replace_YEAR ys t)"
  using assms
proof (induction ys t rule: replace_YEAR.induct)
  case (1 ys)
  then show ?case by simp
next
  case (2 ys c cs)
  show ?case
  proof (cases "prefix ''YEAR'' (c # cs)")
    case True
    then have "replace_YEAR ys (c # cs) = ys @ replace_YEAR ys (drop 3 cs)"
      by simp
    moreover have "\<not> year_search (replace_YEAR ys (drop 3 cs))"
      using "2.IH"(1) [OF True "2.prems"] .
    ultimately show ?thesis
      using "2.prems" by (simp add: year_search_digits_append)
  next
    case False
    have "\<not> prefix ''YEAR'' (c # replace_YEAR ys cs)"
    proof
      assume p: "prefix ''YEAR'' (c # replace_YEAR ys cs)"
      then have "prefix ''EAR'' (replace_YEAR ys cs)" by simp
      then have "prefix ''EAR'' cs"
        using prefix_replace_nondigits [OF "2.prems", of "''EAR''" cs]
        by (simp add: is_digit_def)
      with p False show False by simp
    qed
    moreover have "replace_YEAR ys (c # cs) = c # replace_YEAR ys cs"
      using False by auto
    moreover have "\<not> year_search (replace_YEAR ys cs)"
      using "2.IH"(2) [OF False "2.prems"] .
    ultimately show ?thesis by simp
  qed
qed

lemma prefix_replace_digits:
  "is_digit c \<Longrightarrow> \<not> digit_before_YEAR (c # cs) \<Longrightarrow> \<forall>x\<in>set m. is_digit x \<Longrightarrow>
   prefix m (replace_YEAR ys cs) \<Longrightarrow> prefix m cs"
proof (induction m arbitrary: c cs)
  case Nil
  then show ?case by simp
next
  case (Cons x m)
  show ?case
  proof (cases cs)
    case Nil
    with Cons.prems show ?thesis by simp
  next
    case (Cons z zs)
    with Cons.prems have np: "\<not> prefix ''YEAR'' (z # zs)"
      by auto
    with Cons.prems Cons Cons.IH [of z zs] show ?thesis
      by auto
  qed
qed

lemma date_sub_replace:
  assumes cy14: "2014 \<le> cy" and cy: "cy \<le> 9999"
    and ys: "\<exists>y. 2014 \<le> y \<and> y \<le> cy \<and> ys = str_nat y"
  shows "\<not> date_search cy t \<Longrightarrow> \<not> digit_before_YEAR t \<Longrightarrow>
         date_sub cy (replace_YEAR ys t) = t"
proof (induction t rule: length_induct)
  case (1 t)
  note ysy = ys
  show ?case
  proof (cases t)
    case Nil
    have "date_match cy [] \<noteq> Some m" for m
      using date_match_Some_iff [OF cy14 cy, of "[]" m] by auto
    then have "date_match cy [] = None"
      by (cases "date_match cy []") blast+
    with Nil show ?thesis by simp
  next
    case (Cons c cs)
    note prems = "1.prems" [unfolded Cons]
    have IH: "date_sub cy (replace_YEAR ys u) = u"
      if "length u \<le> length cs" "\<not> date_search cy u" "\<not> digit_before_YEAR u" for u
      using "1.IH" that Cons by auto
    show ?thesis
  proof (cases "prefix ''YEAR'' (c # cs)")
    case True
    then obtain rest where cs: "c = CHR ''Y''" "cs = ''EAR'' @ rest"
      by (auto simp: prefix_def)
    from ysy cy obtain d1 d2 d3 d4 where ds: "ys = [d1, d2, d3, d4]"
      by (auto simp: str_nat_four)
    have m: "date_match cy (ys @ replace_YEAR ys rest) = Some ys"
      using date_match_Some_iff [OF cy14 cy, of "ys @ replace_YEAR ys rest" ys] ysy
      by auto
    have "\<not> date_search cy (drop 4 (c # cs))" "\<not> digit_before_YEAR (drop 4 (c # cs))"
      using date_search_drop [OF prems(1) cy14, of 4]
        digit_before_YEAR_drop [OF prems(2), of 4] by blast+
    then have "\<not> date_search cy (drop 3 cs)" "\<not> digit_before_YEAR (drop 3 cs)"
      by simp_all
    then have ih: "date_sub cy (replace_YEAR ys (drop 3 cs)) = drop 3 cs"
      using IH [of "drop 3 cs"] by simp
    have r: "replace_YEAR ys (c # cs) = ys @ replace_YEAR ys rest"
      by (simp add: cs)
    have "date_sub cy (ys @ replace_YEAR ys rest) = ''YEAR'' @ date_sub cy (replace_YEAR ys rest)"
      using m by (simp add: ds)
    with ih r show ?thesis
      by (simp add: cs Cons)
  next
    case False
    let ?R = "replace_YEAR ys cs"
    have none: "date_match cy (c # ?R) = None"
    proof (cases "date_match cy (c # ?R)")
      case None
      then show ?thesis .
    next
      case (Some m)
      then have dg: "length m = 4" "\<forall>x\<in>set m. is_digit x"
        using date_match_digits [OF cy14 cy Some] by auto
      from Some have pm: "prefix m (c # ?R)"
        and yr: "\<exists>y. 2014 \<le> y \<and> y \<le> cy \<and> m = str_nat y"
        using date_match_Some_iff [OF cy14 cy, of "c # ?R" m] by auto
      from dg obtain m' where m': "m = c # m'" "is_digit c" "prefix m' ?R"
          "\<forall>x\<in>set m'. is_digit x"
        using pm by (cases m) auto
      have "prefix m' cs"
        using prefix_replace_digits [OF m'(2) prems(2) m'(4) m'(3)] .
      then have "prefix m (c # cs)"
        by (simp add: m')
      with yr have "date_match cy (c # cs) = Some m"
        using date_match_Some_iff [OF cy14 cy, of "c # cs" m] by auto
      with prems(1) show ?thesis by simp
    qed
    have "\<not> date_search cy cs" "\<not> digit_before_YEAR cs"
      using prems by auto
    then have ih: "date_sub cy ?R = cs"
      using IH [of cs] by simp
    have r: "replace_YEAR ys (c # cs) = c # ?R"
      using False by auto
    show ?thesis
      unfolding Cons r using none ih by simp
  qed
  qed
qed

lemma take_eq_length: "take n xs = ys \<Longrightarrow> length ys = n \<Longrightarrow> n \<le> length xs"
  by auto

lemma refs_examples:
  "ex_refs ''xyz'' = None" "ex_refs ''notes.xyz'' = None"
  by (simp_all add: ex_refs_def)

section \<open>C1: a file without a template\<close>

text \<open>
  C1 says that a checked file whose resolved type key has no template, neither under the
  lowercased extension nor under the exact basename, fails. The code looks the template
  up with the default \<open>[]\<close>: the empty template is never longer than the file, the
  window of compared lines is empty, and the comparison of two empty lists succeeds.
  So every such file that can be read passes, and nothing is printed.
\<close>

theorem no_template_passes:
  assumes "open_read e filename = Content text"
    and "refs (resolved_key filename text) = None"
    and "refs (basename filename) = None"
  shows "file_passes_check e filename refs = ([], Inr True)"
  using assms by (simp add: file_passes_check_Content template_for_def header_def Let_def)

theorem no_template_passes_witness:
  "file_passes_check (ex_env False) ''notes.xyz'' ex_refs = ([], Inr True)"
  using no_template_passes [OF open_examples(1), of ex_refs False]
  by (simp add: key_examples basename_examples refs_examples)

text \<open>
  C1 as stated fails at \<open>notes.xyz\<close>: no template under \<open>xyz\<close>, none under the basename,
  and the verdict is not fail.
\<close>

theorem no_template_counterexample:
  "ex_refs (get_file_extension ''notes.xyz'') = None
   \<and> ex_refs (basename ''notes.xyz'') = None
   \<and> snd (file_passes_check (ex_env False) ''notes.xyz'' ex_refs) \<noteq> Inr False"
  by (simp add: file_passes_check_Content [OF open_examples(1)] template_examples
      header_examples Let_def ext_examples basename_examples refs_examples)

section \<open>C3: what the pattern of years matches\<close>

text \<open>
  C3 says that the pattern matches a portion of a line exactly when the portion is a
  four-digit year from 2014 through the current year, and never inside a longer run of
  digits. The pattern has no boundary on either side. With the current year between 2014
  and 9999 (the largest year of \<open>datetime\<close>), it matches at a position exactly when the
  text from there on begins with the numeral of a year from 2014 through the current
  year, and what it matches is that numeral, four characters long; what stands before
  and behind is not looked at.
\<close>

theorem current_year_pattern_matches:
  assumes "2014 \<le> cy" and "cy \<le> 9999"
  shows "(date_match cy s = Some m \<longleftrightarrow>
            prefix m s \<and> (\<exists>y. 2014 \<le> y \<and> y \<le> cy \<and> m = str_nat y))
         \<and> (date_match cy s = Some m \<longrightarrow> length m = 4)"
  using assms by (rule date_match_Some_iff)

theorem current_year_pattern_matches_witness:
  "date_match 2023 ''2019, and on'' = Some ''2019''
   \<and> prefix ''2019'' ''2019, and on'' \<and> ''2019'' = str_nat 2019
   \<and> date_match 2023 ''2024'' \<noteq> Some ''2024''"
proof -
  have a: "date_match 2023 ''2019, and on'' = Some ''2019''"
    using current_year_pattern_matches [of 2023 "''2019, and on''" "''2019''"]
    by (simp add: date_match_def years_2023)
  have b: "date_match 2023 ''2024'' \<noteq> Some ''2024''"
    using current_year_pattern_matches [of 2023 "''2024''" "''2024''"]
    by (simp add: date_match_def years_2023)
  from a b show ?thesis
    by (simp add: str_nat_examples)
qed

text \<open>
  C3 as stated fails in the line \<open>120145\<close>, a run of six digits: the pattern matches the
  \<open>2014\<close> inside it, and the substitution rewrites it.
\<close>

theorem current_year_pattern_counterexample:
  "date_match 2023 ''20145'' = Some ''2014'' \<and> date_sub 2023 ''120145'' = ''1YEAR5''"
  by (simp add: date_match_def years_2023)

section \<open>C4: a header equal to its template\<close>

text \<open>
  C4 says that a file whose normalized header equals its template line for line passes.
  The YEAR guard and the substitution of years stand between the header and the
  comparison: a template that holds \<open>YEAR\<close> makes the equal header fail at the guard, and
  in a file that is not generated a year from 2014 on in the header is rewritten before
  the comparison. Where the template holds neither, a file that can be read and whose
  header equals the template passes.
\<close>

theorem header_equal_template_passes:
  assumes "open_read e filename = Content text"
    and "header refs filename text = template_for refs filename text"
    and "\<not> list_ex year_search (template_for refs filename text)"
    and "is_generated_file text
         \<or> \<not> list_ex (date_search (current_year e)) (template_for refs filename text)"
  shows "file_passes_check e filename refs = ([], Inr True)"
proof -
  let ?T = "template_for refs filename text"
  have len: "length ?T \<le> length (normalized_lines filename text)"
    using assms(2) by (auto simp: header_def intro: take_eq_length)
  have sub: "map (date_sub (current_year e)) ?T = ?T" if "\<not> is_generated_file text"
  proof -
    from that assms(4) have "\<forall>l\<in>set ?T. \<not> date_search (current_year e) l"
      by (simp add: list_ex_iff)
    then show ?thesis
      by (auto intro: map_idI date_sub_unchanged)
  qed
  show ?thesis
    using assms(2,3) len sub
    by (simp add: file_passes_check_Content [OF assms(1)] Let_def)
qed

theorem header_equal_template_passes_witness:
  "file_passes_check (ex_env False) ''Makefile'' ex_refs = ([], Inr True)"
  using header_equal_template_passes [OF open_examples(10), of ex_refs False]
  by (simp add: header_examples template_examples generated_examples ex_env_fields
      date_match_def years_2023)

text \<open>
  C4 as stated fails at \<open>verbatim.go\<close>, whose first two lines are the template of \<open>go\<close>,
  placeholder included.
\<close>

theorem header_equal_template_counterexample:
  "header ex_refs ''verbatim.go'' txt_verbatim_go = template_for ex_refs ''verbatim.go'' txt_verbatim_go
   \<and> snd (file_passes_check (ex_env False) ''verbatim.go'' ex_refs) = Inr False"
  by (simp add: file_passes_check_Content [OF open_examples(4)] header_examples
      template_examples lines_examples generated_examples Let_def)

section \<open>C5: a concrete year in place of the placeholder\<close>

text \<open>
  C5 says that for every template and every year from 2014 through the current year, a
  file that is not generated and whose normalized header is the template with \<open>YEAR\<close>
  replaced by that year passes. The substitution rewrites every year it finds, also one
  that the template spells out itself, or one that digits of the template form together
  with the year filled in. For a template in which the pattern of years matches nowhere
  and no digit stands directly before a placeholder, the claim holds.
\<close>

theorem year_round_trip:
  assumes "2014 \<le> y" and "y \<le> current_year e" and "current_year e \<le> 9999"
    and "open_read e filename = Content text"
    and "\<not> is_generated_file text"
    and "header refs filename text =
           map (replace_YEAR (str_nat y)) (template_for refs filename text)"
    and "\<forall>t\<in>set (template_for refs filename text).
           \<not> date_search (current_year e) t \<and> \<not> digit_before_YEAR t"
  shows "file_passes_check e filename refs = ([], Inr True)"
proof -
  let ?T = "template_for refs filename text"
  let ?cy = "current_year e"
  from assms(1-3) have y: "1000 \<le> y" "y < 10000" and cy: "2014 \<le> ?cy"
    by simp_all
  have len: "length ?T \<le> length (normalized_lines filename text)"
    using assms(6) by (auto simp: header_def intro: take_eq_length)
  have guard: "\<not> list_ex year_search (header refs filename text)"
    using no_year_after_replace [OF str_nat_year(3) str_nat_year(2), OF y y]
    by (simp add: assms(6) list_ex_iff)
  have "date_sub ?cy (replace_YEAR (str_nat y) t) = t" if "t \<in> set ?T" for t
    using date_sub_replace [OF cy assms(3), of "str_nat y" t] assms(1,2,7) that by blast
  then have sub: "map (date_sub ?cy) (header refs filename text) = ?T"
    by (simp add: assms(6) map_idI)
  show ?thesis
    using assms(5) len guard sub
    by (simp add: file_passes_check_Content [OF assms(4)] Let_def)
qed

theorem year_round_trip_witness:
  "file_passes_check (ex_env False) ''cmd/main.go'' ex_refs = ([], Inr True)"
  using year_round_trip [OF _ _ _ open_examples(2), of 2023 False ex_refs]
  by (simp add: header_examples template_examples generated_examples ex_env_fields
      str_nat_examples date_match_def years_2023 is_digit_def)

text \<open>
  C5 as stated fails at \<open>run.sh\<close>: its template spells out the year 2014 before the
  placeholder, the header is the template with 2023 filled in, and the check fails.
\<close>

theorem year_round_trip_counterexample:
  "\<not> is_generated_file txt_run_sh
   \<and> header ex_refs ''run.sh'' txt_run_sh =
       map (replace_YEAR (str_nat 2023)) (template_for ex_refs ''run.sh'' txt_run_sh)
   \<and> snd (file_passes_check (ex_env False) ''run.sh'' ex_refs) = Inr False"
  by (simp add: file_passes_check_Content [OF open_examples(9)] header_examples
      template_examples lines_examples generated_examples Let_def ex_env_fields
      str_nat_examples date_match_def years_2023)

section \<open>The verdict of a file that was read\<close>

lemma verdict_iff:
  assumes "open_read e filename = Content text"
  shows "snd (file_passes_check e filename refs) = Inr True \<longleftrightarrow>
           length (template_for refs filename text) \<le> length (normalized_lines filename text)
           \<and> \<not> list_ex year_search (header refs filename text)
           \<and> template_for refs filename text =
               (if is_generated_file text then header refs filename text
                else map (date_sub (current_year e)) (header refs filename text))"
  by (auto simp: file_passes_check_Content [OF assms] Let_def)



section \<open>C6: the guard on the YEAR field\<close>

text \<open>
  C6 says that for every checked file a line of the normalized candidate inside the
  window of the template that holds \<open>YEAR\<close> gives the verdict fail before the comparison,
  with one message for a generated file and another for any other file. The size check
  stands before the guard. For a file that can be read and has \<open>YEAR\<close> in the window: a
  candidate with at least as many lines as the template fails at the guard, and the only
  thing printed is the guard's message, so the comparison is not reached; the message for
  a generated file differs from the other one. A candidate with fewer lines than the
  template fails at the size check, and the only thing printed is the message about the
  size.
\<close>

theorem year_field_guard:
  assumes "open_read e filename = Content text"
    and "list_ex year_search (header refs filename text)"
  shows "(length (template_for refs filename text) \<le> length (normalized_lines filename text) \<longrightarrow>
          file_passes_check e filename refs =
            (print (if is_generated_file text
                    then ''File '' @ filename @
                         '' has the YEAR field, but it should not be in generated file''
                    else ''File '' @ filename @
                         '' has the YEAR field, but is missing the year of date'')
               (verbose_out e), Inr False))
     \<and> (length (normalized_lines filename text) < length (template_for refs filename text) \<longrightarrow>
          file_passes_check e filename refs =
            (print (''File '' @ filename @ '' smaller than reference ('' @
                    str_nat (length (normalized_lines filename text)) @ '' < '' @
                    str_nat (length (template_for refs filename text)) @ '')'')
               (verbose_out e), Inr False))
     \<and> ''File '' @ filename @ '' has the YEAR field, but it should not be in generated file''
         \<noteq> ''File '' @ filename @ '' has the YEAR field, but is missing the year of date''"
  using assms(2) by (simp add: file_passes_check_Content [OF assms(1)] Let_def)

theorem year_field_guard_witness:
  "file_passes_check (ex_env True) ''zz_generated.go'' ex_refs =
     ([(Stderr, ''File zz_generated.go has the YEAR field, but it should not be in generated file'')],
      Inr False)
   \<and> file_passes_check (ex_env True) ''tmpl.py'' ex_refs =
     ([(Stderr, ''File tmpl.py has the YEAR field, but is missing the year of date'')], Inr False)"
proof -
  have a: "file_passes_check (ex_env True) ''zz_generated.go'' ex_refs =
     ([(Stderr, ''File zz_generated.go has the YEAR field, but it should not be in generated file'')],
      Inr False)"
    using year_field_guard [OF open_examples(6), of ex_refs True]
    by (simp add: header_examples template_examples lines_examples generated_examples
        ex_env_fields print_def)
  have b: "file_passes_check (ex_env True) ''tmpl.py'' ex_refs =
     ([(Stderr, ''File tmpl.py has the YEAR field, but is missing the year of date'')], Inr False)"
    using year_field_guard [OF open_examples(7), of ex_refs True]
    by (simp add: header_examples template_examples lines_examples generated_examples
        ex_env_fields print_def)
  from a b show ?thesis by simp
qed

text \<open>
  C6 as stated fails at \<open>short.go\<close> and at the generated \<open>short.c\<close>: each has one line,
  which holds \<open>YEAR\<close>, against a template of two lines; what is printed is the message
  about the size, of the same form for both, and neither message of the guard.
\<close>

theorem year_field_guard_counterexample:
  "list_ex year_search (header ex_refs ''short.go'' txt_short_go)
   \<and> \<not> is_generated_file txt_short_go
   \<and> file_passes_check (ex_env True) ''short.go'' ex_refs =
       ([(Stderr, ''File short.go smaller than reference (1 < 2)'')], Inr False)
   \<and> list_ex year_search (header ex_refs ''short.c'' txt_short_c)
   \<and> is_generated_file txt_short_c
   \<and> file_passes_check (ex_env True) ''short.c'' ex_refs =
       ([(Stderr, ''File short.c smaller than reference (1 < 2)'')], Inr False)"
  by (simp add: file_passes_check_Content [OF open_examples(13)]
      file_passes_check_Content [OF open_examples(14)] header_examples template_examples
      lines_examples generated_examples Let_def ex_env_fields print_def str_nat_examples)

section \<open>C7: the size check and the window\<close>

text \<open>
  C7: a normalized candidate with fewer lines than the template fails, and the message
  about the size is all that is printed, so neither the guard nor the substitution nor
  the comparison has run. Otherwise the verdict is decided by the first \<open>len(T)\<close> lines of
  the candidate alone, which are compared with the whole template.
\<close>

theorem size_check_and_window:
  assumes "open_read e filename = Content text"
  shows "(length (normalized_lines filename text) < length (template_for refs filename text) \<longrightarrow>
            file_passes_check e filename refs =
              (print (''File '' @ filename @ '' smaller than reference ('' @
                      str_nat (length (normalized_lines filename text)) @ '' < '' @
                      str_nat (length (template_for refs filename text)) @ '')'')
                 (verbose_out e), Inr False))
       \<and> (length (template_for refs filename text) \<le> length (normalized_lines filename text) \<longrightarrow>
            (snd (file_passes_check e filename refs) = Inr True \<longleftrightarrow>
               \<not> list_ex year_search
                    (take (length (template_for refs filename text)) (normalized_lines filename text))
               \<and> template_for refs filename text =
                   (if is_generated_file text
                    then take (length (template_for refs filename text))
                           (normalized_lines filename text)
                    else map (date_sub (current_year e))
                           (take (length (template_for refs filename text))
                              (normalized_lines filename text)))))"
  using verdict_iff [OF assms, of refs]
  by (auto simp: file_passes_check_Content [OF assms] Let_def header_def)

theorem size_check_and_window_witness:
  "file_passes_check (ex_env True) ''empty.py'' ex_refs =
     ([(Stderr, ''File empty.py smaller than reference (0 < 1)'')], Inr False)
   \<and> snd (file_passes_check (ex_env True) ''cmd/main.go'' ex_refs) = Inr True"
proof -
  have a: "file_passes_check (ex_env True) ''empty.py'' ex_refs =
     ([(Stderr, ''File empty.py smaller than reference (0 < 1)'')], Inr False)"
    using size_check_and_window [OF open_examples(8), of ex_refs True]
    by (simp add: template_examples lines_examples ex_env_fields print_def str_nat_examples
        str_nat.simps [of "Suc 0"] digit_char_def)
  have b: "snd (file_passes_check (ex_env True) ''cmd/main.go'' ex_refs) = Inr True"
    using size_check_and_window [OF open_examples(2), of ex_refs True]
    by (simp add: template_examples lines_examples generated_examples ex_env_fields
        date_match_def years_2023)
  from a b show ?thesis by simp
qed

lemma check_examples:
  "file_passes_check (ex_env v) ''notes.xyz'' ex_refs = ([], Inr True)"
  "file_passes_check (ex_env v) ''late.go'' ex_refs = ([], Inr True)"
  "file_passes_check (ex_env False) ''gone.go'' ex_refs =
     ([(Stdout, ''Unable to open gone.go: [Errno 2] No such file or directory: '' @
                [CHR 0x27] @ ''gone.go'' @ [CHR 0x27])], Inr False)"
  "file_passes_check (ex_env False) ''empty.py'' ex_refs =
     ([(Stdout, ''File empty.py smaller than reference (0 < 1)'')], Inr False)"
  "file_passes_check (ex_env False) ''tmpl.py'' ex_refs =
     ([(Stdout, ''File tmpl.py has the YEAR field, but is missing the year of date'')], Inr False)"
  "file_passes_check (ex_env False) ''run.sh'' ex_refs =
     ([(Stdout, ''Header in run.sh does not match reference. Showing diff:'')], Inr False)"
proof -
  show "file_passes_check (ex_env v) ''notes.xyz'' ex_refs = ([], Inr True)"
    by (simp add: file_passes_check_Content [OF open_examples(1)] template_examples
        header_examples Let_def)
  show "file_passes_check (ex_env v) ''late.go'' ex_refs = ([], Inr True)"
    by (simp add: file_passes_check_Content [OF open_examples(3)] template_examples
        header_examples lines_examples generated_examples Let_def ex_env_fields
        date_match_def years_2023)
  show "file_passes_check (ex_env False) ''gone.go'' ex_refs =
     ([(Stdout, ''Unable to open gone.go: [Errno 2] No such file or directory: '' @
                [CHR 0x27] @ ''gone.go'' @ [CHR 0x27])], Inr False)"
    by (simp add: file_passes_check_def open_examples ex_env_fields print_def no_such_file_def)
  show "file_passes_check (ex_env False) ''empty.py'' ex_refs =
     ([(Stdout, ''File empty.py smaller than reference (0 < 1)'')], Inr False)"
    by (simp add: file_passes_check_Content [OF open_examples(8)] template_examples
        lines_examples Let_def ex_env_fields print_def str_nat_examples)
  show "file_passes_check (ex_env False) ''tmpl.py'' ex_refs =
     ([(Stdout, ''File tmpl.py has the YEAR field, but is missing the year of date'')], Inr False)"
    by (simp add: file_passes_check_Content [OF open_examples(7)] template_examples
        header_examples lines_examples generated_examples Let_def ex_env_fields print_def)
  show "file_passes_check (ex_env False) ''run.sh'' ex_refs =
     ([(Stdout, ''Header in run.sh does not match reference. Showing diff:'')], Inr False)"
    by (simp add: file_passes_check_Content [OF open_examples(9)] template_examples
        header_examples lines_examples generated_examples Let_def ex_env_fields print_def
        date_match_def years_2023)
qed

section \<open>C8: generated files\<close>



section \<open>C2: where the preamble is removed\<close>

text \<open>
  C2 says that the block of build constraints, or the shebang, is removed only at the
  very start of the text and that the same block further down stays and counts as
  header. Both patterns are compiled with \<open>re.MULTILINE\<close>, so \<open>^\<close> also holds behind every
  newline and \<open>subn\<close> removes the first block it finds, wherever it starts. In \<open>late.go\<close>
  the build constraint is the second line: it is removed, the license line moves up into
  the window, and the file passes, although its first two lines are not the template.
\<close>

theorem preamble_removed_below_first_line:
  "take 2 (splitlines txt_late_go) = [''// Copyright 2023 The Authors.'', ''//go:build linux'']
   \<and> subn_first go_build_constraints True txt_late_go =
       ''// Copyright 2023 The Authors.\<newline>// Licensed under the Apache License, Version 2.0\<newline>package main\<newline>''
   \<and> file_passes_check (ex_env False) ''late.go'' ex_refs = ([], Inr True)
   \<and> subn_first shebang True ''# setup\<newline>#!/bin/sh\<newline>\<newline>echo hi\<newline>'' =
       ''# setup\<newline>echo hi\<newline>''"
  by (simp add: check_examples txt_late_go_def go_build_constraints.simps go_build_line_def
      shebang_def splitlines_def is_linebreak_def)

section \<open>C9: what is printed when verbose mode is off\<close>

text \<open>
  With verbose mode off, a check that fails prints exactly one line, and prints it on the
  standard output.
\<close>

lemma quiet_failure_prints_on_stdout:
  assumes "\<not> verbose e" and "snd (file_passes_check e filename refs) = Inr False"
  shows "\<exists>msg. fst (file_passes_check e filename refs) = [(Stdout, msg)]"
proof (cases "open_read e filename")
  case (Content t)
  with assms show ?thesis
    by (auto simp: file_passes_check_Content [OF Content] Let_def print_def verbose_out_def
        split: if_splits)
next
  case (Raises x)
  with assms show ?thesis
    by (cases x) (auto simp: file_passes_check_def print_def verbose_out_def)
qed

text \<open>
  C9 says that with verbose mode off no diagnostic detail is printed for a failing file,
  only the line \<open>Failed: <path>\<close>. With verbose mode off \<open>verbose_out\<close> is \<open>None\<close>, and
  \<open>print\<close> with \<open>file=None\<close> writes to the standard output: \<open>file_passes_check\<close> prints
  there the message about the file that cannot be opened, about the size, about the
  YEAR field and about the mismatch. Only the lines of the diff are held back.
\<close>

theorem quiet_mode_prints_diagnostics:
  "\<not> verbose (ex_env False)
   \<and> file_passes_check (ex_env False) ''gone.go'' ex_refs =
       ([(Stdout, ''Unable to open gone.go: [Errno 2] No such file or directory: '' @
                  [CHR 0x27] @ ''gone.go'' @ [CHR 0x27])], Inr False)
   \<and> file_passes_check (ex_env False) ''empty.py'' ex_refs =
       ([(Stdout, ''File empty.py smaller than reference (0 < 1)'')], Inr False)
   \<and> file_passes_check (ex_env False) ''tmpl.py'' ex_refs =
       ([(Stdout, ''File tmpl.py has the YEAR field, but is missing the year of date'')],
        Inr False)
   \<and> file_passes_check (ex_env False) ''run.sh'' ex_refs =
       ([(Stdout, ''Header in run.sh does not match reference. Showing diff:'')], Inr False)"
  by (simp add: check_examples ex_env_fields)

section \<open>C10: which exceptions the check of one file contains\<close>

text \<open>
  \<open>file_passes_check\<close> turns an \<open>OSError\<close> of the read into the verdict fail and lets any
  other exception pass. The loop of \<open>main\<close>, run on a list of files, goes on behind a
  file that fails and is left by an exception: \<open>before\<close> are files the loop has come
  through, \<open>files\<close> the ones that follow.
\<close>

lemma file_passes_check_Raises:
  "open_read e f = Raises (OSError msg) \<Longrightarrow>
     file_passes_check e f refs =
       (print (''Unable to open '' @ f @ '': '' @ msg) (verbose_out e), Inr False)"
  "open_read e f = Raises (OtherException msg) \<Longrightarrow>
     file_passes_check e f refs = ([], Inl (OtherException msg))"
  by (simp_all add: file_passes_check_def)

lemma main_loop_after_raise:
  assumes "snd (main_loop e refs before) = Inr 0"
  shows "open_read e f = Raises (OSError msg) \<Longrightarrow>
           main_loop e refs (before @ f # files) =
             (fst (main_loop e refs before)
                @ print (''Unable to open '' @ f @ '': '' @ msg) (verbose_out e)
                @ print (''Failed: '' @ f) None @ fst (main_loop e refs files),
              snd (main_loop e refs files))"
    and "open_read e f = Raises (OtherException msg) \<Longrightarrow>
           main_loop e refs (before @ f # files) =
             (fst (main_loop e refs before), Inl (OtherException msg))"
  using assms
  by (auto simp: main_loop_append file_passes_check_Raises Let_def
      split: prod.splits sum.splits)



end
